theory Spec2Isabelle
  imports
    Main
    "HOL-Library.Char_ord"
    "HOL-Library.List_Lexorder"
    "HOL-Library.Product_Lexorder"
    "HOL-Library.Sublist"
begin

section \<open>Python values used by \<open>babyai_env_description.py\<close>\<close>

text \<open>
  The exceptions the module can raise.  The spec's \<open>IndexOutOfRange\<close> is Python's
  \<open>IndexError\<close>; a failed \<open>assert\<close> is \<open>AssertionError\<close>; a missing dictionary key is
  \<open>KeyError\<close>; \<open>range\<close> applied to something that is not an integer is \<open>TypeError\<close>; reading
  an attribute an object does not have is \<open>AttributeError\<close>.
\<close>

datatype pyerror = IndexError | KeyError | TypeError | AttributeError | AssertionError

text \<open>
  \<open>xs[i]\<close> on a Python list (and on a tensor axis): an index below zero is counted from
  the end, and an index outside \<open>-len .. len - 1\<close> raises \<open>IndexError\<close>.
\<close>

definition py_getitem :: "'a list \<Rightarrow> int \<Rightarrow> pyerror + 'a" where
  "py_getitem xs i =
     (if 0 \<le> i \<and> i < int (length xs) then Inr (xs ! nat i)
      else if i < 0 \<and> - int (length xs) \<le> i then Inr (xs ! nat (int (length xs) + i))
      else Inl IndexError)"

text \<open>\<open>sep.join(parts)\<close>.\<close>

fun py_join :: "string \<Rightarrow> string list \<Rightarrow> string" where
  "py_join sep [] = []"
| "py_join sep [x] = x"
| "py_join sep (x # y # ys) = x @ sep @ py_join sep (y # ys)"

text \<open>
  \<open>str(n)\<close> for a count, which is what the f-string \<open>{count}\<close> formats: the decimal digits,
  most significant first.
\<close>

definition digit_char :: "nat \<Rightarrow> char" where
  "digit_char d = ''0123456789'' ! d"

fun str_nat :: "nat \<Rightarrow> string" where
  "str_nat n =
     (if n < 10 then [digit_char n] else str_nat (n div 10) @ [digit_char (n mod 10)])"

declare str_nat.simps [simp del]

section \<open>Cell describer\<close>

text \<open>
  The vocabularies \<open>OBJECTS\<close>, \<open>COLORS\<close> and \<open>DOOR_STATES\<close> come from \<open>babyai.common\<close>, which
  is not part of the file; they are parameters of the model, ordered lookup tables indexed
  by the integer codes of a cell.
\<close>

record vocab =
  OBJECTS :: "string list"
  COLORS :: "string list"
  DOOR_STATES :: "string list"

text \<open>An observation frame: rows of cells, a cell being the triple of codes.\<close>

type_synonym image = "(int \<times> int \<times> int) list list"

type_synonym region = "(int \<times> int) list"

text \<open>
  \<open>location_descriptors\<close>: \<open>x, y, z = image[r, c]\<close>, then the three table lookups, all three
  evaluated whatever the object is.
\<close>

definition location_descriptors ::
  "vocab \<Rightarrow> image \<Rightarrow> int \<Rightarrow> int \<Rightarrow> pyerror + (string \<times> string \<times> string)" where
  "location_descriptors V img r c =
     (case py_getitem img r of
        Inl e \<Rightarrow> Inl e
      | Inr row \<Rightarrow>
          (case py_getitem row c of
             Inl e \<Rightarrow> Inl e
           | Inr (x, y, z) \<Rightarrow>
               (case py_getitem (OBJECTS V) x of
                  Inl e \<Rightarrow> Inl e
                | Inr obj \<Rightarrow>
                    (case py_getitem (COLORS V) y of
                       Inl e \<Rightarrow> Inl e
                     | Inr color \<Rightarrow>
                         (case py_getitem (DOOR_STATES V) z of
                            Inl e \<Rightarrow> Inl e
                          | Inr door \<Rightarrow> Inr (obj, color, door))))))"

definition location_string :: "vocab \<Rightarrow> image \<Rightarrow> int \<Rightarrow> int \<Rightarrow> pyerror + string" where
  "location_string V img r c =
     (case location_descriptors V img r c of
        Inl e \<Rightarrow> Inl e
      | Inr (obj, color, door) \<Rightarrow>
          Inr (if obj = ''unseen'' then ''unseen''
               else if obj = ''empty'' \<or> obj = ''floor'' then ''empty''
               else if obj = ''door'' then door @ '' '' @ color @ '' '' @ obj
               else color @ '' '' @ obj))"

section \<open>Region describer\<close>

text \<open>
  \<open>Counter()\<close> is a dictionary, which keeps its keys in the order of first insertion:
  an association list.  \<open>entities[entry] += 1\<close> bumps an existing key in place and
  appends a new key at the end.
\<close>

fun counter_incr :: "string \<Rightarrow> (string \<times> nat) list \<Rightarrow> (string \<times> nat) list" where
  "counter_incr k [] = [(k, 1)]"
| "counter_incr k ((k', n) # kvs) =
     (if k = k' then (k', n + 1) # kvs else (k', n) # counter_incr k kvs)"

text \<open>The tally loop \<open>for i, j in region\<close>; a failing lookup aborts it.\<close>

fun tally ::
  "vocab \<Rightarrow> image \<Rightarrow> region \<Rightarrow> (string \<times> nat) list \<Rightarrow> pyerror + (string \<times> nat) list" where
  "tally V img [] entities = Inr entities"
| "tally V img ((i, j) # rest) entities =
     (case location_string V img i j of
        Inl e \<Rightarrow> Inl e
      | Inr entry \<Rightarrow> tally V img rest (counter_incr entry entities))"

text \<open>
  The sort key \<open>lambda x: 1 if 'wall' in x else 0\<close>.  Its argument \<open>x\<close> is an item of the
  counter, the tuple \<open>(entity, count)\<close>, so \<open>in\<close> is tuple membership: it asks whether a
  component of the tuple equals \<open>'wall'\<close>.  The count is an integer and never equals a
  string, which leaves the comparison with the entity.
\<close>

definition wall_key :: "string \<times> nat \<Rightarrow> nat" where
  "wall_key x = (if fst x = ''wall'' then 1 else 0)"

text \<open>
  One clause of the sentence.  Here \<open>'box' in entity\<close> is on a string: substring search,
  \<^const>\<open>sublist\<close>.
\<close>

fun clause :: "string \<times> nat \<Rightarrow> string" where
  "clause (entity, count) =
     (if count > 1
      then str_nat count @ '' '' @ entity @ (if sublist ''box'' entity then ''es'' else ''s'')
      else ''a '' @ entity)"

definition skipped :: "string \<times> nat \<Rightarrow> bool" where
  "skipped x = (fst x = ''unseen'' \<or> fst x = ''empty'')"

definition clauses :: "(string \<times> nat) list \<Rightarrow> string list" where
  "clauses entities = map clause (filter (\<lambda>x. \<not> skipped x) entities)"

text \<open>
  The grammar step.  \<open>description[0]\<close> on an empty list and \<open>tail[0]\<close> on an empty string
  raise \<open>IndexError\<close>.
\<close>

definition sentence :: "string list \<Rightarrow> pyerror + string" where
  "sentence description =
     (case (if length description > 1
            then Inr (py_join '', '' (butlast description) @ '' and '' @ last description)
            else py_getitem description 0) of
        Inl e \<Rightarrow> Inl e
      | Inr tail \<Rightarrow>
          (case py_getitem tail 0 of
             Inl e \<Rightarrow> Inl e
           | Inr t0 \<Rightarrow>
               Inr ((if t0 = CHR ''a'' then ''is'' else ''are'') @ '' '' @ tail @ ''.'')))"

text \<open>\<open>sorted(..., key=...)\<close> is stable, as \<^const>\<open>sort_key\<close> is.\<close>

definition region_description :: "vocab \<Rightarrow> image \<Rightarrow> region \<Rightarrow> pyerror + string" where
  "region_description V img reg =
     (case tally V img reg [] of
        Inl e \<Rightarrow> Inl e
      | Inr entities \<Rightarrow>
          if set (map fst entities) \<subseteq> {''unseen'', ''empty''}
          then Inr (if ''empty'' \<in> set (map fst entities)
                    then ''the space is empty.'' else ''the space is not visible.'')
          else sentence (clauses (sort_key wall_key entities)))"

section \<open>Frame describer\<close>

fun describe_regions ::
  "vocab \<Rightarrow> image \<Rightarrow> (string \<times> region) list \<Rightarrow> string list \<Rightarrow> pyerror + string list" where
  "describe_regions V img [] description = Inr description"
| "describe_regions V img ((statement, reg) # rest) description =
     (case region_description V img reg of
        Inl e \<Rightarrow> Inl e
      | Inr d \<Rightarrow> describe_regions V img rest (description @ [statement, d]))"

definition image_description ::
  "vocab \<Rightarrow> image \<Rightarrow> (string \<times> region) list \<Rightarrow> pyerror + string" where
  "image_description V img view_partition =
     (case describe_regions V img view_partition [''You are in a room.''] of
        Inl e \<Rightarrow> Inl e
      | Inr description \<Rightarrow> Inr (py_join '' '' description))"

section \<open>View partitioner\<close>

definition EGO :: string where
  "EGO = ''E''"

text \<open>
  The registry \<open>EGO_VIEW_ENCODINGS\<close> has one encoding, \<open>cardinal_diagonal\<close>.  Its template
  is kept as the lines that \<open>inspect.cleandoc(encoding_labels).split('\n')\<close> yields for the
  literal of the source (the common indentation and the blank first and last lines
  removed); its label map is the dictionary's items in the order they are written.
\<close>

definition cardinal_diagonal_labels :: "string list" where
  "cardinal_diagonal_labels =
     [''6663777'',
      ''6663777'',
      ''6663777'',
      ''6663777'',
      ''6663777'',
      ''6660777'',
      ''441E255'']"

definition cardinal_diagonal_statements :: "(string \<times> string) list" where
  "cardinal_diagonal_statements =
     [(''0'', ''Directly front''),
      (''1'', ''Directly left''),
      (''2'', ''Directly right''),
      (''3'', ''Farther front''),
      (''4'', ''Farther left''),
      (''5'', ''Farther right''),
      (''6'', ''Farther front left''),
      (''7'', ''Farther front right'')]"

definition EGO_VIEW_ENCODINGS :: "(string \<times> string list \<times> (string \<times> string) list) list" where
  "EGO_VIEW_ENCODINGS =
     [(''cardinal_diagonal'', cardinal_diagonal_labels, cardinal_diagonal_statements)]"

text \<open>
  The loop over \<open>itertools.product(range(n), range(m))\<close>.  \<open>partition_dict\<close> is a
  \<open>defaultdict(list)\<close>: a total function whose default is the empty list.  A cell is a
  one-character string; the label map is looked up with it (\<open>KeyError\<close> when absent).
\<close>

fun partition_loop ::
  "string list \<Rightarrow> (string \<times> string) list \<Rightarrow> (nat \<times> nat) list \<Rightarrow>
   (string \<Rightarrow> region) \<Rightarrow> pyerror + (string \<Rightarrow> region)" where
  "partition_loop encoding_labels label_to_statement [] partition_dict = Inr partition_dict"
| "partition_loop encoding_labels label_to_statement ((r, c) # rest) partition_dict =
     (case py_getitem encoding_labels (int r) of
        Inl e \<Rightarrow> Inl e
      | Inr row \<Rightarrow>
          (case py_getitem row (int c) of
             Inl e \<Rightarrow> Inl e
           | Inr label \<Rightarrow>
               if [label] = EGO
               then partition_loop encoding_labels label_to_statement rest partition_dict
               else
                 (case map_of label_to_statement [label] of
                    None \<Rightarrow> Inl KeyError
                  | Some statement \<Rightarrow>
                      partition_loop encoding_labels label_to_statement rest
                        (partition_dict
                           (statement := partition_dict statement @ [(int r, int c)])))))"

text \<open>
  The body of \<open>make_view_partition\<close> after the registry lookup, for any template and label
  map.  \<open>VIEW_SHAPE\<close> is a constant of \<open>babyai.common\<close> and a parameter here.  The result
  lists one pair per item of the label map, the items sorted as Python sorts tuples of
  strings (lexicographically, characters by code point).
\<close>

definition view_partition_of ::
  "nat \<times> nat \<Rightarrow> string list \<Rightarrow> (string \<times> string) list \<Rightarrow> pyerror + (string \<times> region) list" where
  "view_partition_of VIEW_SHAPE encoding_labels label_to_statement =
     (case py_getitem encoding_labels 0 of
        Inl e \<Rightarrow> Inl e
      | Inr row0 \<Rightarrow>
          if (length encoding_labels, length row0) \<noteq> VIEW_SHAPE then Inl AssertionError
          else
            (case partition_loop encoding_labels label_to_statement
                    (List.product [0..<length encoding_labels] [0..<length row0]) (\<lambda>_. []) of
               Inl e \<Rightarrow> Inl e
             | Inr partition_dict \<Rightarrow>
                 Inr (map (\<lambda>(_, statement). (statement, partition_dict statement))
                        (sort label_to_statement))))"

definition make_view_partition ::
  "nat \<times> nat \<Rightarrow> string \<Rightarrow> pyerror + (string \<times> region) list" where
  "make_view_partition VIEW_SHAPE view_encoding =
     (case map_of EGO_VIEW_ENCODINGS view_encoding of
        None \<Rightarrow> Inl KeyError
      | Some (encoding_labels, label_to_statement) \<Rightarrow>
          view_partition_of VIEW_SHAPE encoding_labels label_to_statement)"

text \<open>
  What the partition claim speaks of.  The non-ego cells of a template, as coordinates;
  and a well-formed pair of template and label map for a view shape: the template has
  the rows and columns of the shape, every label of a non-ego cell has an entry in the
  map, and the map is a dictionary (no key twice).
\<close>

definition non_ego_cells :: "string list \<Rightarrow> (int \<times> int) list" where
  "non_ego_cells encoding_labels =
     [(int r, int c). r \<leftarrow> [0..<length encoding_labels],
                      c \<leftarrow> [0..<length (encoding_labels ! r)],
                      [encoding_labels ! r ! c] \<noteq> EGO]"

definition well_formed :: "nat \<times> nat \<Rightarrow> string list \<Rightarrow> (string \<times> string) list \<Rightarrow> bool" where
  "well_formed VIEW_SHAPE encoding_labels label_to_statement \<longleftrightarrow>
     encoding_labels \<noteq> [] \<and>
     length encoding_labels = fst VIEW_SHAPE \<and>
     (\<forall>row \<in> set encoding_labels. length row = snd VIEW_SHAPE) \<and>
     (\<forall>row \<in> set encoding_labels. \<forall>ch \<in> set row.
        [ch] \<noteq> EGO \<longrightarrow> [ch] \<in> fst ` set label_to_statement) \<and>
     distinct (map fst label_to_statement)"

section \<open>Prompt builder\<close>

text \<open>
  \<open>TaskSequence\<close> is declared in \<open>datasets.formats.task_sequence\<close>, outside the file.  The
  builder uses its attribute \<open>sequence\<close> as the list of timestep records
  (\<open>self.sequence.sequence[timestamp]\<close>); of a record it reads the observation
  (\<open>features['images']\<close>) and the action's name.
\<close>

record frame =
  images :: image
  action_name :: string

text \<open>The attributes that \<open>__init__\<close> assigns: there is no \<open>inventory_item\<close> among them.\<close>

record builder =
  sequence :: "frame list"
  view_partition :: "(string \<times> region) list"
  inventory_history :: "string option list"

text \<open>
  \<open>range(x)\<close> takes an integer; given a list it raises \<open>TypeError\<close>.  The two kinds of
  value that matter for the call \<open>range(sequence.sequence)\<close>:
\<close>

datatype 'a pyobj = PyInt int | PyList "'a list"

fun py_range :: "'a pyobj \<Rightarrow> pyerror + int list" where
  "py_range (PyInt n) = Inr [0..n - 1]"
| "py_range (PyList xs) = Inl TypeError"

text \<open>
  The body of \<open>for frame in range(...)\<close>.  The loop variable is an integer, and the first
  statement of the body reads \<open>frame.actions\<close>: an \<open>AttributeError\<close> on the first
  iteration, whatever the action.  Only an empty range leaves the loop normally.
\<close>

fun inventory_loop ::
  "int list \<Rightarrow> string option \<Rightarrow> string option list \<Rightarrow> pyerror + string option list" where
  "inventory_loop [] cur_item history = Inr history"
| "inventory_loop (frame # rest) cur_item history = Inl AttributeError"

definition builder_init :: "nat \<times> nat \<Rightarrow> frame list \<Rightarrow> string \<Rightarrow> pyerror + builder" where
  "builder_init VIEW_SHAPE seq view_encoding =
     (case make_view_partition VIEW_SHAPE view_encoding of
        Inl e \<Rightarrow> Inl e
      | Inr vp \<Rightarrow>
          (case py_range (PyList seq) of
             Inl e \<Rightarrow> Inl e
           | Inr frames \<Rightarrow>
               (case inventory_loop frames None [] of
                  Inl e \<Rightarrow> Inl e
                | Inr history \<Rightarrow>
                    Inr \<lparr>sequence = seq, view_partition = vp, inventory_history = history\<rparr>)))"

text \<open>Truth value of an inventory entry: \<open>None\<close> and the empty string are false.\<close>

fun truthy :: "string option \<Rightarrow> bool" where
  "truthy None = False"
| "truthy (Some s) = (s \<noteq> [])"

text \<open>
  \<open>build_prompt\<close>, as a method: it takes the object and returns the result with the object
  as the call leaves it.  The branch for a held item formats \<open>self.inventory_item\<close>, an
  attribute no code assigns: \<open>AttributeError\<close>.
\<close>

definition build_prompt :: "vocab \<Rightarrow> builder \<Rightarrow> int \<Rightarrow> (pyerror + string) \<times> builder" where
  "build_prompt V self timestamp =
     (case py_getitem (sequence self) timestamp of
        Inl e \<Rightarrow> (Inl e, self)
      | Inr fr \<Rightarrow>
          (case image_description V (images fr) (view_partition self) of
             Inl e \<Rightarrow> (Inl e, self)
           | Inr d \<Rightarrow>
               (case py_getitem (inventory_history self) timestamp of
                  Inl e \<Rightarrow> (Inl e, self)
                | Inr item \<Rightarrow>
                    if truthy item then (Inl AttributeError, self)
                    else (Inr (py_join '' '' [d, ''You are not carrying anything.'']), self))))"

section \<open>Concrete inputs\<close>

text \<open>
  An instance of the external tables, in the order of the grid world's encoding, used
  where a statement is evaluated on a concrete frame.
\<close>

definition grid_vocab :: vocab where
  "grid_vocab =
     \<lparr>OBJECTS = [''unseen'', ''empty'', ''wall'', ''floor'', ''door'', ''key'', ''ball'',
                 ''box'', ''goal'', ''lava'', ''agent''],
      COLORS = [''red'', ''green'', ''blue'', ''purple'', ''yellow'', ''grey''],
      DOOR_STATES = [''open'', ''closed'', ''locked'']\<rparr>"

text \<open>A view in which every cell is an empty cell (object code 1).\<close>

definition all_empty_view :: image where
  "all_empty_view = replicate 7 (replicate 7 (1, 0, 0))"

definition frame_with :: "string \<Rightarrow> frame" where
  "frame_with a = \<lparr>images = all_empty_view, action_name = a\<rparr>"

text \<open>The partition a builder holds for the encoding \<open>cardinal_diagonal\<close> and a 7 by 7 view.\<close>

definition cardinal_diagonal_partition :: "(string \<times> region) list" where
  "cardinal_diagonal_partition =
     (case make_view_partition (7, 7) ''cardinal_diagonal'' of Inl e \<Rightarrow> [] | Inr vp \<Rightarrow> vp)"

text \<open>Two builders over a sequence of one frame: empty-handed, and holding an item.\<close>

definition idle_builder :: builder where
  "idle_builder =
     \<lparr>sequence = [frame_with ''forward''],
      view_partition = cardinal_diagonal_partition,
      inventory_history = [None]\<rparr>"

definition holding_builder :: builder where
  "holding_builder =
     \<lparr>sequence = [frame_with ''pickup''],
      view_partition = cardinal_diagonal_partition,
      inventory_history = [Some ''red ball'']\<rparr>"

text \<open>
  A label map for the template of \<open>cardinal_diagonal\<close> in which the labels \<open>4\<close> and \<open>5\<close>
  carry one statement.
\<close>

definition merged_sides_statements :: "(string \<times> string) list" where
  "merged_sides_statements =
     [(''0'', ''Directly front''),
      (''1'', ''Directly left''),
      (''2'', ''Directly right''),
      (''3'', ''Farther front''),
      (''4'', ''Farther side''),
      (''5'', ''Farther side''),
      (''6'', ''Farther front left''),
      (''7'', ''Farther front right'')]"

text \<open>One-row frames: an unseen and an empty cell; two red boxes; three blue keys.\<close>

definition unseen_empty_row :: image where
  "unseen_empty_row = [[(0, 0, 0), (1, 0, 0)]]"

definition two_boxes_row :: image where
  "two_boxes_row = [[(7, 0, 0), (7, 0, 0)]]"

definition three_keys_row :: image where
  "three_keys_row = [[(5, 2, 0), (5, 2, 0), (5, 2, 0)]]"

section \<open>Notions used in the proofs\<close>


text \<open>A template position as a coordinate of a region.\<close>

definition cell_of :: "nat \<times> nat \<Rightarrow> int \<times> int" where
  "cell_of rc = (int (fst rc), int (snd rc))"

text \<open>The position holds a non-ego label that the map sends to statement \<open>s\<close>.\<close>

definition stated :: "string list \<Rightarrow> (string \<times> string) list \<Rightarrow> string \<Rightarrow> nat \<times> nat \<Rightarrow> bool" where
  "stated ls lts s rc \<longleftrightarrow>
     [ls ! fst rc ! snd rc] \<noteq> EGO \<and> map_of lts [ls ! fst rc ! snd rc] = Some s"

section \<open>The inventory trace\<close>

text \<open>
  Claim C1 says that the constructor scans the actions front to back and that the actions
  \<open>[move, pickup, move, drop, move]\<close> give the trace \<open>[none, item, item, none, none]\<close>.
  The constructor as written does not get that far: \<open>range\<close> is applied to the list of
  frames and raises \<open>TypeError\<close>, so no trace is built for this sequence
  (\<open>forward\<close> is the move action).
\<close>

theorem builder_init_move_pickup_drop_raises:
  "builder_init (7, 7)
     (map frame_with [''forward'', ''pickup'', ''forward'', ''drop'', ''forward''])
     ''cardinal_diagonal'' = Inl TypeError"
  by code_simp

text \<open>No sequence and no encoding makes the constructor return a builder.\<close>

lemma builder_init_never_returns: "builder_init VIEW_SHAPE seq view_encoding \<noteq> Inr b"
  by (simp add: builder_init_def split: sum.splits)

section \<open>The prompt of a timestep\<close>

text \<open>
  Claim C2 says that the prompt of a valid timestep ends with \<open>You are carrying a {item}.\<close>
  when the trace holds an item there.  On a builder whose trace holds \<open>red ball\<close> at
  timestep 0 the method raises \<open>AttributeError\<close> instead, and leaves the builder as it was.
\<close>

theorem build_prompt_holding_raises:
  "build_prompt grid_vocab holding_builder 0 = (Inl AttributeError, holding_builder)"
  by code_simp

text \<open>The other sentence is produced: an empty-handed timestep gets its prompt.\<close>

lemma build_prompt_idle:
  "fst (build_prompt grid_vocab idle_builder 0) =
     Inr ''You are in a room. Directly front the space is empty. Directly left the space is empty. Directly right the space is empty. Farther front the space is empty. Farther left the space is empty. Farther right the space is empty. Farther front left the space is empty. Farther front right the space is empty. You are not carrying anything.''"
  by code_simp

section \<open>Timestamps out of range\<close>






section \<open>Repeated queries\<close>


section \<open>Regions without coordinates\<close>

text \<open>
  Claim C9, as stated, fails: on the region with no coordinates the describer returns a
  description of the all-empty view instead of raising.
\<close>

theorem region_description_empty_region_returns:
  "region_description grid_vocab all_empty_view [] = Inr ''the space is not visible.''"
  by code_simp

text \<open>
  Claim C9, amended: for every frame, the description of a region with zero coordinates is
  the string \<open>the space is not visible.\<close>; no exception is raised.
\<close>

theorem region_description_Nil:
  "region_description V img [] = Inr ''the space is not visible.''"
  by (simp add: region_description_def)

section \<open>Walls in a region's sentence\<close>

text \<open>
  Claim C4 says that a clause with \<open>wall\<close> in it comes after every clause without.  For a
  region whose first cell is a grey wall and whose second cell is a red ball, the wall
  clause comes first: the sort key tests the tuple \<open>(entity, count)\<close> for the member
  \<open>'wall'\<close>, which \<open>grey wall\<close> is not, so the sort moves nothing.
\<close>

theorem region_description_wall_first:
  "region_description grid_vocab [[(2, 5, 0), (6, 0, 0)]] [(0, 0), (0, 1)] =
     Inr ''is a grey wall and a red ball.''"
  by code_simp

section \<open>The tally of a region\<close>

lemma tally_fold:
  "map (\<lambda>(i, j). location_string V img i j) reg = map Inr ps \<Longrightarrow>
   tally V img reg acc = Inr (fold counter_incr ps acc)"
proof (induction reg arbitrary: ps acc)
  case Nil
  then show ?case by simp
next
  case (Cons ij reg)
  obtain i j where ij: "ij = (i, j)" by (cases ij)
  from Cons.prems obtain p ps' where ps: "ps = p # ps'"
    by (cases ps) auto
  with Cons.prems ij have hd: "location_string V img i j = Inr p"
    and tl: "map (\<lambda>(i, j). location_string V img i j) reg = map Inr ps'"
    by auto
  show ?case
    by (simp add: ij ps hd Cons.IH [OF tl])
qed

lemma keys_counter_incr: "fst ` set (counter_incr k kvs) = insert k (fst ` set kvs)"
  by (induction k kvs rule: counter_incr.induct) auto

lemma keys_fold_counter_incr:
  "fst ` set (fold counter_incr ps acc) = set ps \<union> fst ` set acc"
  by (induction ps arbitrary: acc) (auto simp add: keys_counter_incr)





section \<open>Regions of unseen and empty cells\<close>

text \<open>
  Claim C6: when the phrase of every cell of a region is \<open>unseen\<close> or \<open>empty\<close>, the
  describer returns \<open>the space is empty.\<close> if some cell is \<open>empty\<close>, and
  \<open>the space is not visible.\<close> otherwise, that is when every phrase is \<open>unseen\<close>.
\<close>

theorem region_description_unseen_empty:
  assumes "\<forall>(i, j) \<in> set reg. location_string V img i j = Inr ''unseen'' \<or>
             location_string V img i j = Inr ''empty''"
  shows "region_description V img reg =
           Inr (if \<exists>(i, j) \<in> set reg. location_string V img i j = Inr ''empty''
                then ''the space is empty.'' else ''the space is not visible.'')"
proof -
  define ps where "ps = map (\<lambda>(i, j). if location_string V img i j = Inr ''empty'' then ''empty'' else ''unseen'') reg"
  have m: "map (\<lambda>(i, j). location_string V img i j) reg = map Inr ps"
    using assms by (auto simp add: ps_def split: if_splits)
  have t: "tally V img reg [] = Inr (fold counter_incr ps [])"
    by (rule tally_fold [OF m])
  have k: "fst ` set (fold counter_incr ps []) = set ps"
    by (simp add: keys_fold_counter_incr)
  have sub: "set ps \<subseteq> {''unseen'', ''empty''}"
    by (auto simp add: ps_def split: if_splits)
  have e: "''empty'' \<in> set ps \<longleftrightarrow> (\<exists>(i, j) \<in> set reg. location_string V img i j = Inr ''empty'')"
    by (force simp add: ps_def split: if_splits)
  show ?thesis
    using sub e by (simp add: region_description_def t k)
qed

theorem region_description_unseen_empty_witness:
  "region_description grid_vocab unseen_empty_row [(0, 0), (0, 1)] = Inr ''the space is empty.'' \<and>
   region_description grid_vocab unseen_empty_row [(0, 0)] = Inr ''the space is not visible.''"
proof -
  have e0: "location_string grid_vocab unseen_empty_row 0 0 = Inr ''unseen''"
    by code_simp
  have e1: "location_string grid_vocab unseen_empty_row 0 1 = Inr ''empty''"
    by code_simp
  have h1: "\<forall>(i, j) \<in> set [(0, 0), (0, 1)].
      location_string grid_vocab unseen_empty_row i j = Inr ''unseen'' \<or>
      location_string grid_vocab unseen_empty_row i j = Inr ''empty''"
    by (simp add: e0 e1)
  have h2: "\<forall>(i, j) \<in> set [(0, 0)].
      location_string grid_vocab unseen_empty_row i j = Inr ''unseen'' \<or>
      location_string grid_vocab unseen_empty_row i j = Inr ''empty''"
    by (simp add: e0)
  show ?thesis
    using region_description_unseen_empty [OF h1] region_description_unseen_empty [OF h2]
    by (simp add: e0 e1)
qed

section \<open>Clauses of a region's sentence\<close>








text \<open>The sentences of the two examples of the claim, and of a single cell.\<close>

lemma region_description_two_boxes:
  "region_description grid_vocab two_boxes_row [(0, 0), (0, 1)] = Inr ''are 2 red boxes.''"
  by code_simp

lemma region_description_three_keys:
  "region_description grid_vocab three_keys_row [(0, 0), (0, 1), (0, 2)] =
     Inr ''are 3 blue keys.''"
  by code_simp

lemma region_description_one_key:
  "region_description grid_vocab three_keys_row [(0, 0)] = Inr ''is a blue key.''"
  by code_simp

section \<open>The description of a frame\<close>

lemma describe_regions_ok:
  "map (\<lambda>(statement, reg). region_description V img reg) vp = map Inr ds \<Longrightarrow>
   describe_regions V img vp acc =
     Inr (acc @ concat (map (\<lambda>((statement, reg), d). [statement, d]) (zip vp ds)))"
proof (induction vp arbitrary: ds acc)
  case Nil
  then show ?case by simp
next
  case (Cons sr vp)
  obtain statement reg where sr: "sr = (statement, reg)" by (cases sr)
  from Cons.prems obtain d ds' where ds: "ds = d # ds'"
    by (cases ds) auto
  with Cons.prems sr have hd: "region_description V img reg = Inr d"
    and tl: "map (\<lambda>(statement, reg). region_description V img reg) vp = map Inr ds'"
    by auto
  show ?case
    by (simp add: sr ds hd Cons.IH [OF tl])
qed

lemma prefix_py_join: "prefix x (py_join sep (x # xs))"
  by (cases xs) simp_all

text \<open>
  Claim C8: when the regions of the partition have the descriptions \<open>ds\<close>, the frame
  describer returns the fixed sentence \<open>You are in a room.\<close>, then for each pair of the
  partition, in order, its statement and the description of its region, the pieces joined
  by single spaces; so the result begins with the fixed sentence.
\<close>

theorem image_description_layout:
  assumes "map (\<lambda>(statement, reg). region_description V img reg) vp = map Inr ds"
  shows "\<exists>s. image_description V img vp = Inr s \<and>
           prefix ''You are in a room.'' s \<and>
           s = py_join '' ''
                 (''You are in a room.'' #
                  concat (map (\<lambda>((statement, reg), d). [statement, d]) (zip vp ds)))"
  using describe_regions_ok [OF assms, of "[''You are in a room.'']"]
  by (simp add: image_description_def prefix_py_join)

theorem image_description_layout_witness:
  "image_description grid_vocab [[(6, 0, 0)]] [(''Directly front'', [(0, 0)])] =
     Inr ''You are in a room. Directly front is a red ball.''"
proof -
  have h: "map (\<lambda>(statement, reg). region_description grid_vocab [[(6, 0, 0)]] reg)
             [(''Directly front'', [(0, 0)])] = map Inr [''is a red ball.'']"
    by code_simp
  show ?thesis
    using image_description_layout [OF h] by simp
qed

section \<open>The partition of the view\<close>

lemma py_getitem_nat: "r < length xs \<Longrightarrow> py_getitem xs (int r) = Inr (xs ! r)"
  by (simp add: py_getitem_def)

lemma partition_loop_ok:
  assumes "\<forall>(r, c) \<in> set cells. r < length ls \<and> c < length (ls ! r)"
    and "\<forall>(r, c) \<in> set cells. [ls ! r ! c] \<noteq> EGO \<longrightarrow> [ls ! r ! c] \<in> fst ` set lts"
  shows "partition_loop ls lts cells pd =
           Inr (\<lambda>s. pd s @ map cell_of (filter (stated ls lts s) cells))"
  using assms
proof (induction cells arbitrary: pd)
  case Nil
  then show ?case by simp
next
  case (Cons rc cells)
  obtain r c where rc: "rc = (r, c)" by (cases rc)
  from Cons.prems rc have b: "r < length ls" "c < length (ls ! r)"
    by auto
  have ih: "partition_loop ls lts cells pd' =
           Inr (\<lambda>s. pd' s @ map cell_of (filter (stated ls lts s) cells))" for pd'
    using Cons.IH Cons.prems by simp
  show ?case
  proof (cases "[ls ! r ! c] = EGO")
    case True
    then have "\<not> stated ls lts s (r, c)" for s
      by (simp add: stated_def)
    with True show ?thesis
      by (simp add: rc py_getitem_nat b ih)
  next
    case False
    with Cons.prems(2) rc have "[ls ! r ! c] \<in> fst ` set lts" by auto
    then obtain st where st: "map_of lts [ls ! r ! c] = Some st"
      by (metis domD dom_map_of_conv_image_fst)
    have "(\<lambda>s. (pd(st := pd st @ [(int r, int c)])) s @ map cell_of (filter (stated ls lts s) cells))
        = (\<lambda>s. pd s @ map cell_of (filter (stated ls lts s) (rc # cells)))"
      by (rule ext) (simp add: rc stated_def False st cell_of_def)
    then show ?thesis
      using False by (simp add: rc py_getitem_nat b ih st)
  qed
qed


lemma distinct_map_sort:
  "distinct (map f (sort xs)) \<longleftrightarrow> distinct (map f xs)"
  by (simp add: distinct_map)

lemma set_non_ego_cells:
  "set (non_ego_cells ls) =
     {(int r, int c) | r c. r < length ls \<and> c < length (ls ! r) \<and> [ls ! r ! c] \<noteq> EGO}"
  by (auto simp add: non_ego_cells_def)

lemma inj_cell_of: "inj cell_of"
  by (auto simp add: inj_on_def cell_of_def prod_eq_iff)

text \<open>
  Claim C5, as stated, fails when two labels carry the same statement: the pair is
  well formed, and the regions at positions 4 and 5 of the result are the same cells, so
  the cell \<open>(6, 0)\<close> lies in two regions.
\<close>

theorem view_partition_merged_sides_overlap:
  "well_formed (7, 7) cardinal_diagonal_labels merged_sides_statements \<and>
   (case view_partition_of (7, 7) cardinal_diagonal_labels merged_sides_statements of
      Inl e \<Rightarrow> False
    | Inr parts \<Rightarrow>
        parts ! 4 = (''Farther side'', [(6, 0), (6, 1), (6, 5), (6, 6)]) \<and>
        parts ! 5 = (''Farther side'', [(6, 0), (6, 1), (6, 5), (6, 6)]))"
  by code_simp

text \<open>
  Claim C5, amended: for a well-formed template and label map of the declared view shape
  in which no two labels carry the same statement, the partitioner returns a partition:
  every non-ego cell lies in the region of exactly one position of the result, the
  regions together are the non-ego cells, and no region lists a cell twice.
\<close>

theorem view_partition_true_partition:
  assumes wf: "well_formed VIEW_SHAPE ls lts"
    and inj: "distinct (map snd lts)"
  shows "\<exists>parts. view_partition_of VIEW_SHAPE ls lts = Inr parts \<and>
           (\<forall>cell \<in> set (non_ego_cells ls).
              \<exists>!k. k < length parts \<and> cell \<in> set (snd (parts ! k))) \<and>
           (\<Union>(statement, reg) \<in> set parts. set reg) = set (non_ego_cells ls) \<and>
           (\<forall>(statement, reg) \<in> set parts. distinct reg)"
proof -
  define n m where "n = length ls" and "m = length (ls ! 0)"
  define cells where "cells = List.product [0..<n] [0..<m]"
  define pd where "pd = (\<lambda>s. map cell_of (filter (stated ls lts s) cells))"
  define parts where "parts = map (\<lambda>(_, statement). (statement, pd statement)) (sort lts)"
  from wf have ne: "ls \<noteq> []" and nfst: "n = fst VIEW_SHAPE"
    and rowlen: "\<forall>row \<in> set ls. length row = snd VIEW_SHAPE"
    and labels: "\<forall>row \<in> set ls. \<forall>ch \<in> set row. [ch] \<noteq> EGO \<longrightarrow> [ch] \<in> fst ` set lts"
    by (simp_all add: well_formed_def n_def)
  have row_in: "ls ! r \<in> set ls" if "r < n" for r
    using that by (simp add: n_def)
  have msnd: "m = snd VIEW_SHAPE"
    using rowlen row_in [of 0] ne by (simp add: m_def n_def)
  have shape: "(n, m) = VIEW_SHAPE"
    by (simp add: nfst msnd)
  have rows: "length (ls ! r) = m" if "r < n" for r
    using rowlen row_in [OF that] by (simp add: msnd)
  have known: "[ls ! r ! c] \<in> fst ` set lts"
    if "r < n" "c < m" "[ls ! r ! c] \<noteq> EGO" for r c
  proof -
    have "ls ! r ! c \<in> set (ls ! r)"
      using that rows by simp
    with labels row_in [OF that(1)] that(3) show ?thesis
      by blast
  qed
  have g0: "py_getitem ls 0 = Inr (ls ! 0)"
    using ne by (simp add: py_getitem_def)
  have loop: "partition_loop ls lts cells (\<lambda>_. []) = Inr pd"
  proof -
    have "partition_loop ls lts cells (\<lambda>_. []) =
        Inr (\<lambda>s. [] @ map cell_of (filter (stated ls lts s) cells))"
      by (rule partition_loop_ok) (auto simp add: cells_def rows known n_def)
    then show ?thesis by (simp add: pd_def)
  qed
  have res: "view_partition_of VIEW_SHAPE ls lts = Inr parts"
    using shape loop
    by (simp add: view_partition_of_def g0 n_def [symmetric] m_def [symmetric]
        cells_def [symmetric] parts_def)
  have len: "length parts = length lts"
    by (simp add: parts_def)
  have nth: "snd (parts ! k) = pd (snd (sort lts ! k))" if "k < length lts" for k
    using that by (simp add: parts_def split_beta)
  have mem: "cell_of (r, c) \<in> set (pd s) \<longleftrightarrow> map_of lts [ls ! r ! c] = Some s"
    if "r < n" "c < m" "[ls ! r ! c] \<noteq> EGO" for r c s
  proof -
    have "cell_of (r, c) \<in> set (pd s) \<longleftrightarrow> (r, c) \<in> set (filter (stated ls lts s) cells)"
      unfolding pd_def set_map by (rule inj_image_mem_iff [OF inj_cell_of])
    then show ?thesis
      using that by (simp add: cells_def stated_def)
  qed
  have dsort: "distinct (map snd (sort lts))"
    using inj by (simp add: distinct_map_sort)
  have uniq: "\<exists>!k. k < length parts \<and> cell \<in> set (snd (parts ! k))"
    if "cell \<in> set (non_ego_cells ls)" for cell
  proof -
    from that obtain r c where cell: "cell = cell_of (r, c)"
      and b: "r < n" "c < m" and l: "[ls ! r ! c] \<noteq> EGO"
      using rows by (auto simp add: set_non_ego_cells cell_of_def n_def)
    from known [OF b l] obtain s where s: "map_of lts [ls ! r ! c] = Some s"
      by (metis domD dom_map_of_conv_image_fst)
    then have "s \<in> set (map snd (sort lts))"
      by (force dest: map_of_SomeD)
    then obtain k where "k < length (map snd (sort lts))" "map snd (sort lts) ! k = s"
      unfolding in_set_conv_nth by blast
    then have k: "k < length lts" "snd (sort lts ! k) = s"
      by simp_all
    show ?thesis
    proof (rule ex1I [of _ k])
      show "k < length parts \<and> cell \<in> set (snd (parts ! k))"
        using k s by (simp add: len nth cell mem [OF b l])
    next
      fix j
      assume "j < length parts \<and> cell \<in> set (snd (parts ! j))"
      then have j: "j < length lts" and "snd (sort lts ! j) = s"
        using s by (auto simp add: len nth cell mem [OF b l])
      with k have "map snd (sort lts) ! j = map snd (sort lts) ! k"
        by simp
      with dsort j k show "j = k"
        by (simp add: nth_eq_iff_index_eq del: nth_map)
    qed
  qed
  have sub: "set reg \<subseteq> set (non_ego_cells ls)" if "(statement, reg) \<in> set parts"
    for statement reg
  proof -
    from that obtain s where "reg = pd s"
      by (auto simp add: parts_def)
    then show ?thesis
      using rows
      by (auto simp add: pd_def set_non_ego_cells cells_def stated_def cell_of_def n_def)
  qed
  have cover: "set (non_ego_cells ls) \<subseteq> (\<Union>(statement, reg) \<in> set parts. set reg)"
  proof
    fix cell
    assume "cell \<in> set (non_ego_cells ls)"
    then obtain k where "k < length parts" "cell \<in> set (snd (parts ! k))"
      using uniq by blast
    then show "cell \<in> (\<Union>(statement, reg) \<in> set parts. set reg)"
      by (force simp add: in_set_conv_nth split_beta)
  qed
  have dist: "distinct reg" if "(statement, reg) \<in> set parts" for statement reg
  proof -
    from that obtain s where "reg = pd s"
      by (auto simp add: parts_def)
    moreover have "distinct cells"
      by (simp add: cells_def distinct_product)
    ultimately show ?thesis
      using inj_on_subset [OF inj_cell_of subset_UNIV]
      by (simp add: pd_def distinct_map)
  qed
  have union: "(\<Union>(statement, reg) \<in> set parts. set reg) = set (non_ego_cells ls)"
  proof (rule equalityI)
    show "(\<Union>(statement, reg) \<in> set parts. set reg) \<subseteq> set (non_ego_cells ls)"
      using sub by blast
  next
    show "set (non_ego_cells ls) \<subseteq> (\<Union>(statement, reg) \<in> set parts. set reg)"
      by (rule cover)
  qed
  have "\<forall>cell \<in> set (non_ego_cells ls).
          \<exists>!k. k < length parts \<and> cell \<in> set (snd (parts ! k))"
    using uniq by blast
  moreover have "\<forall>(statement, reg) \<in> set parts. distinct reg"
    using dist by blast
  ultimately show ?thesis
    using res union by blast
qed

theorem view_partition_true_partition_witness:
  "well_formed (7, 7) cardinal_diagonal_labels cardinal_diagonal_statements \<and>
   distinct (map snd cardinal_diagonal_statements) \<and>
   (\<exists>parts. view_partition_of (7, 7) cardinal_diagonal_labels cardinal_diagonal_statements =
        Inr parts \<and>
      (\<forall>cell \<in> set (non_ego_cells cardinal_diagonal_labels).
         \<exists>!k. k < length parts \<and> cell \<in> set (snd (parts ! k))) \<and>
      (\<Union>(statement, reg) \<in> set parts. set reg) =
        set (non_ego_cells cardinal_diagonal_labels) \<and>
      (\<forall>(statement, reg) \<in> set parts. distinct reg))"
proof -
  have wf: "well_formed (7, 7) cardinal_diagonal_labels cardinal_diagonal_statements"
    by code_simp
  have inj: "distinct (map snd cardinal_diagonal_statements)"
    by code_simp
  show ?thesis
    using wf inj view_partition_true_partition [OF wf inj] by blast
qed

text \<open>The partition of \<open>cardinal_diagonal\<close>, as \<open>make_view_partition\<close> returns it.\<close>

lemma make_view_partition_cardinal_diagonal:
  "make_view_partition (7, 7) ''cardinal_diagonal'' =
     Inr [(''Directly front'', [(5, 3)]),
          (''Directly left'', [(6, 2)]),
          (''Directly right'', [(6, 4)]),
          (''Farther front'', [(0, 3), (1, 3), (2, 3), (3, 3), (4, 3)]),
          (''Farther left'', [(6, 0), (6, 1)]),
          (''Farther right'', [(6, 5), (6, 6)]),
          (''Farther front left'',
           [(0, 0), (0, 1), (0, 2), (1, 0), (1, 1), (1, 2), (2, 0), (2, 1), (2, 2),
            (3, 0), (3, 1), (3, 2), (4, 0), (4, 1), (4, 2), (5, 0), (5, 1), (5, 2)]),
          (''Farther front right'',
           [(0, 4), (0, 5), (0, 6), (1, 4), (1, 5), (1, 6), (2, 4), (2, 5), (2, 6),
            (3, 4), (3, 5), (3, 6), (4, 4), (4, 5), (4, 6), (5, 4), (5, 5), (5, 6)])]"
  by code_simp

end
